theory Spec2Isabelle
  imports Main "HOL-Library.Sublist"
begin

section \<open>Values\<close>

text \<open>
  The Python values that reach the Java support of ronin: \<open>None\<close>, booleans, integers,
  (unicode) strings and deferred functions. A deferred function is known by its name only;
  calling it is the work of \<open>stringify\<close>, which is not part of \<^verbatim>\<open>ronin/java/__init__.py\<close>.
\<close>

datatype pyval = PNone | PBool bool | PInt int | PStr string | PFun string

text \<open>Python's truth value, as used by \<^verbatim>\<open>x or y\<close> and by \<^verbatim>\<open>if x:\<close>.\<close>

fun truthy :: "pyval \<Rightarrow> bool" where
  "truthy PNone = False"
| "truthy (PBool b) = b"
| "truthy (PInt i) = (i \<noteq> 0)"
| "truthy (PStr s) = (s \<noteq> [])"
| "truthy (PFun f) = True"

text \<open>\<^verbatim>\<open>a or b\<close>\<close>

definition py_or :: "pyval \<Rightarrow> pyval \<Rightarrow> pyval" where
  "py_or a b = (if truthy a then a else b)"

text \<open>
  The documented type of a command argument: \<^verbatim>\<open>basestring or FunctionType\<close>, or the
  default \<^verbatim>\<open>None\<close>.
\<close>

fun is_command_value :: "pyval \<Rightarrow> bool" where
  "is_command_value PNone = True"
| "is_command_value (PStr s) = True"
| "is_command_value (PFun f) = True"
| "is_command_value (PBool b) = False"
| "is_command_value (PInt i) = False"

text \<open>\<^verbatim>\<open>sep.join(xs)\<close>, \<^verbatim>\<open>s.startswith(p)\<close> and \<^verbatim>\<open>s.endswith(p)\<close> on strings.\<close>

fun join :: "string \<Rightarrow> string list \<Rightarrow> string" where
  "join sep [] = []"
| "join sep [x] = x"
| "join sep (x # y # ys) = x @ sep @ join sep (y # ys)"

definition startswith :: "string \<Rightarrow> string \<Rightarrow> bool" where
  "startswith s p = (take (length p) s = p)"

definition endswith :: "string \<Rightarrow> string \<Rightarrow> bool" where
  "endswith s p = (length p \<le> length s \<and> drop (length s - length p) s = p)"

datatype error = AttributeError | TypeMismatch | NotFound | ScopeError


section \<open>External collaborators\<close>

text \<open>
  Functions that \<^verbatim>\<open>ronin/java/__init__.py\<close> imports from other modules of ronin, and the platform's path separator. They are parameters of the model:
  \<^item> \<open>which\<close>: \<^verbatim>\<open>ronin.utils.platform.which\<close>, the executable resolver; it may fail;
  \<^item> \<open>pathify\<close>: \<^verbatim>\<open>ronin.ninja.pathify\<close>, stringify and escape a path;
  \<^item> \<open>stringify\<close>: the rendering of an unfiltered argument value;
  \<^item> \<open>argument_filter\<close>: the rendering of a filtered argument value;
  \<^item> \<open>os_sep\<close>: \<^verbatim>\<open>os.sep\<close>.
\<close>

record externals =
  which :: "pyval \<Rightarrow> error + string"
  pathify :: "pyval \<Rightarrow> string"
  stringify :: "pyval \<Rightarrow> string"
  argument_filter :: "pyval \<Rightarrow> string"
  os_sep :: string

section \<open>Command builders (executors)\<close>

datatype executor_class = JavaCompileClass | JarClass | OtherExecutorClass string

text \<open>
  The \<^verbatim>\<open>command\<close> attribute: unset, or the closure
  \<^verbatim>\<open>lambda ctx: which(ctx.fallback(command, key, default))\<close> with the three values it
  captures.
\<close>

datatype command_source = NoCommand | ContextCommand pyval string string

text \<open>The three hook functions of the module, by name.\<close>

datatype hook = DebugHook | CompileHook | ClasspathHook

text \<open>
  One entry of the argument sequence: whether it is filtered, and the values given to the
  call that appended it.
\<close>

datatype argument = Arg (to_filter: bool) (arg_values: "pyval list")

text \<open>
  An executor object. \<open>cls\<close> is its class; \<open>classpath\<close> is \<open>None\<close> on an object
  that has no such attribute (only \<^verbatim>\<open>JavaCompile.__init__\<close> sets it).
\<close>

record executor =
  cls :: executor_class
  command :: command_source
  command_types :: "string list"
  output_type :: string
  output_extension :: "string option"
  arguments :: "argument list"
  hooks :: "hook list"
  classpath :: "pyval list option"

text \<open>
  Modelled from the spec: \<^verbatim>\<open>ExecutorWithArguments\<close> (module \<^verbatim>\<open>ronin.executors\<close>). A fresh command builder has no command, no kind tags, an empty
  argument sequence and no hooks; \<open>add_argument\<close> appends a filtered entry,
  \<open>add_argument_unfiltered\<close> a verbatim one, each at the end of the sequence.
\<close>

definition ExecutorWithArguments_init :: "executor_class \<Rightarrow> executor" where
  "ExecutorWithArguments_init c =
     \<lparr>cls = c, command = NoCommand, command_types = [], output_type = ''object'',
      output_extension = None, arguments = [], hooks = [], classpath = None\<rparr>"

definition add_argument :: "pyval list \<Rightarrow> executor \<Rightarrow> executor" where
  "add_argument vs e = e\<lparr>arguments := arguments e @ [Arg True vs]\<rparr>"

definition add_argument_unfiltered :: "pyval list \<Rightarrow> executor \<Rightarrow> executor" where
  "add_argument_unfiltered vs e = e\<lparr>arguments := arguments e @ [Arg False vs]\<rparr>"

definition hooks_append :: "hook \<Rightarrow> executor \<Rightarrow> executor" where
  "hooks_append h e = e\<lparr>hooks := hooks e @ [h]\<rparr>"

subsection \<open>JavaCompile\<close>

definition DEFAULT_JAVAC_COMMAND :: string where
  "DEFAULT_JAVAC_COMMAND = ''javac''"

definition DEFAULT_JAR_COMMAND :: string where
  "DEFAULT_JAR_COMMAND = ''jar''"

text \<open>\<^verbatim>\<open>JavaCompile.__init__(self, command=None, classpath=[])\<close>, statement by statement.\<close>

definition JavaCompile :: "pyval \<Rightarrow> pyval list \<Rightarrow> executor" where
  "JavaCompile cmd cp =
     (hooks_append ClasspathHook
       (hooks_append CompileHook
         (hooks_append DebugHook
           (add_argument_unfiltered [PStr ''$in'']
             ((ExecutorWithArguments_init JavaCompileClass)
                \<lparr>command := ContextCommand cmd ''java.javac_command'' DEFAULT_JAVAC_COMMAND,
                 output_type := ''object'',
                 output_extension := Some ''class'',
                 classpath := Some (if cp \<noteq> [] then cp else [])\<rparr>)))))"

text \<open>
  \<^verbatim>\<open>enable_debug\<close> and \<^verbatim>\<open>add_classpath\<close> are methods of \<^verbatim>\<open>JavaCompile\<close>: on an object
  of another class the call raises \<^verbatim>\<open>AttributeError\<close>.
\<close>

definition enable_debug :: "executor \<Rightarrow> error + executor" where
  "enable_debug e =
     (if cls e = JavaCompileClass then Inr (add_argument [PStr ''-g''] e)
      else Inl AttributeError)"


subsection \<open>Jar\<close>

text \<open>\<^verbatim>\<open>Jar.__init__(self, command=None, manifest=None)\<close>\<close>

definition Jar :: "pyval \<Rightarrow> pyval \<Rightarrow> executor" where
  "Jar cmd manifest =
     (let e = (ExecutorWithArguments_init JarClass)
                \<lparr>command := ContextCommand cmd ''java.jar_command'' DEFAULT_JAR_COMMAND,
                 command_types := [''java_jar''],
                 output_type := ''binary'',
                 output_extension := Some ''jar''\<rparr>
      in if truthy manifest then
           add_argument [manifest]
             (add_argument_unfiltered [PStr ''$out'']
               (add_argument_unfiltered [PStr ''cfm''] e))
         else
           add_argument_unfiltered [PStr ''$out'']
             (add_argument_unfiltered [PStr ''cf''] e))"

definition store_only :: "executor \<Rightarrow> executor" where
  "store_only e = add_argument [PStr ''-0''] e"

definition preserve_paths :: "executor \<Rightarrow> executor" where
  "preserve_paths e = add_argument [PStr ''-P''] e"

definition disable_manifest :: "executor \<Rightarrow> executor" where
  "disable_manifest e = add_argument [PStr ''-M''] e"

section \<open>Phases, extensions and the output registry\<close>

text \<open>A project is known by its identity.\<close>

type_synonym project = nat

text \<open>An output descriptor: its \<^verbatim>\<open>path\<close> (the output directory) and its \<^verbatim>\<open>file\<close>.\<close>

record output_desc =
  out_path :: string
  out_file :: string

text \<open>\<^verbatim>\<open>current.project_outputs\<close>: project, then phase name, to the recorded outputs.\<close>

type_synonym registry = "project \<rightharpoonup> (string \<rightharpoonup> output_desc list)"

text \<open>A \<^verbatim>\<open>JavaClasses\<close> extension: its \<^verbatim>\<open>_project\<close> and \<^verbatim>\<open>_phase_name\<close>.\<close>

record extension =
  ext_project :: project
  ext_phase_name :: string

definition JavaClasses :: "project \<Rightarrow> string \<Rightarrow> extension" where
  "JavaClasses proj name = \<lparr>ext_project = proj, ext_phase_name = name\<rparr>"

text \<open>The two variable functions of the module, by name, and any other.\<close>

datatype var_function = JavaOutputPathVar | JavaJarInputsVar | OtherVarFunction string

datatype var_value = VarLiteral pyval | VarFunction var_function

text \<open>
  A phase object, as far as the module reads and writes it. \<open>attrs\<close> holds the
  attributes that extensions set on the object at run time, by attribute name
  (\<^verbatim>\<open>hasattr\<close> is membership of its domain).
\<close>

record phase =
  executor :: executor
  rebuild_on_from :: "string list"
  vars :: "string \<rightharpoonup> var_value"
  input_path :: pyval
  output_path :: pyval
  attrs :: "string \<rightharpoonup> extension list"

section \<open>The context (configuration store)\<close>

text \<open>
  Modelled from the spec: the context of \<^verbatim>\<open>ronin.contexts\<close>. A scope holds key/value entries; the entries \<^verbatim>\<open>current.phase\<close> and
  \<^verbatim>\<open>current.project_outputs\<close>, which hold objects, have a slot of their own type. The
  store is a root scope and a stack of pushed scopes, innermost first. Lookup walks from the
  innermost scope outward to the root and returns the first match; \<open>ctx_set\<close> writes to
  the innermost scope; \<open>fallback explicit key default\<close> returns \<open>explicit\<close> if it is
  not empty, else looks up \<open>key\<close>, else \<open>default\<close>.
\<close>

record scope =
  entries :: "string \<rightharpoonup> pyval"
  current_phase :: "phase option"
  current_project_outputs :: "registry option"

record store =
  root :: scope
  stack :: "scope list"

definition empty_scope :: scope where
  "empty_scope = \<lparr>entries = Map.empty, current_phase = None, current_project_outputs = None\<rparr>"

definition scopes :: "store \<Rightarrow> scope list" where
  "scopes ctx = stack ctx @ [root ctx]"

fun first_match :: "(scope \<Rightarrow> 'a option) \<Rightarrow> scope list \<Rightarrow> 'a option" where
  "first_match sel [] = None"
| "first_match sel (s # ss) = (case sel s of Some v \<Rightarrow> Some v | None \<Rightarrow> first_match sel ss)"

definition lookup :: "store \<Rightarrow> string \<Rightarrow> pyval option" where
  "lookup ctx key = first_match (\<lambda>s. entries s key) (scopes ctx)"

definition ctx_get :: "store \<Rightarrow> string \<Rightarrow> pyval \<Rightarrow> pyval" where
  "ctx_get ctx key dflt = (case lookup ctx key of None \<Rightarrow> dflt | Some v \<Rightarrow> v)"

definition map_innermost :: "(scope \<Rightarrow> scope) \<Rightarrow> store \<Rightarrow> store" where
  "map_innermost f ctx =
     (case stack ctx of
        [] \<Rightarrow> ctx\<lparr>root := f (root ctx)\<rparr>
      | s # ss \<Rightarrow> ctx\<lparr>stack := f s # ss\<rparr>)"

definition ctx_set :: "string \<Rightarrow> pyval \<Rightarrow> store \<Rightarrow> store" where
  "ctx_set key v ctx = map_innermost (\<lambda>s. s\<lparr>entries := (entries s)(key \<mapsto> v)\<rparr>) ctx"

definition push_scope :: "scope \<Rightarrow> store \<Rightarrow> store" where
  "push_scope s ctx = ctx\<lparr>stack := s # stack ctx\<rparr>"

definition pop_scope :: "store \<Rightarrow> error + store" where
  "pop_scope ctx =
     (case stack ctx of
        [] \<Rightarrow> Inl ScopeError
      | s # ss \<Rightarrow> Inr (ctx\<lparr>stack := ss\<rparr>))"

fun is_empty_value :: "pyval \<Rightarrow> bool" where
  "is_empty_value PNone = True"
| "is_empty_value (PStr s) = (s = [])"
| "is_empty_value v = False"

definition fallback :: "store \<Rightarrow> pyval \<Rightarrow> string \<Rightarrow> pyval \<Rightarrow> pyval" where
  "fallback ctx explicit key dflt =
     (if \<not> is_empty_value explicit then explicit else ctx_get ctx key dflt)"

text \<open>\<^verbatim>\<open>ctx.current.phase\<close> and \<^verbatim>\<open>ctx.get('current.project_outputs')\<close>\<close>

definition ctx_current_phase :: "store \<Rightarrow> phase option" where
  "ctx_current_phase ctx = first_match current_phase (scopes ctx)"

definition ctx_project_outputs :: "store \<Rightarrow> registry option" where
  "ctx_project_outputs ctx = first_match current_project_outputs (scopes ctx)"



section \<open>configure_java\<close>

text \<open>
  \<^verbatim>\<open>
  with current_context(False) as ctx:
      ctx.java.javac_command = javac_command or DEFAULT_JAVAC_COMMAND
      ctx.java.jar_command = jar_command or DEFAULT_JAR_COMMAND
  \<close>
\<close>

definition configure_java :: "pyval \<Rightarrow> pyval \<Rightarrow> store \<Rightarrow> store" where
  "configure_java javac_command jar_command ctx =
     ctx_set ''java.jar_command'' (py_or jar_command (PStr DEFAULT_JAR_COMMAND))
       (ctx_set ''java.javac_command'' (py_or javac_command (PStr DEFAULT_JAVAC_COMMAND)) ctx)"

section \<open>Hooks of the compile executor\<close>

text \<open>
  \<^verbatim>\<open>
  def _debug_hook(executor):
      with current_context() as ctx:
          if ctx.get('build.debug', False):
              executor.enable_debug()
  \<close>
\<close>

definition debug_hook :: "executor \<Rightarrow> store \<Rightarrow> error + executor" where
  "debug_hook e ctx =
     (if truthy (ctx_get ctx ''build.debug'' (PBool False)) then enable_debug e else Inr e)"



text \<open>
  \<^verbatim>\<open>
  def _classpath_hook(executor):
      if executor.classpath:
          executor.add_argument('-classpath',
                                u':'.join([pathify(v) for v in executor.classpath]))
  \<close>
\<close>

definition classpath_hook :: "externals \<Rightarrow> executor \<Rightarrow> error + executor" where
  "classpath_hook x e =
     (case classpath e of
        None \<Rightarrow> Inl AttributeError
      | Some cp \<Rightarrow>
          (if cp \<noteq> [] then
             Inr (add_argument [PStr ''-classpath'', PStr (join '':'' (map (pathify x) cp))] e)
           else Inr e))"

text \<open>\<^verbatim>\<open>_java_output_path_var(output, inputs)\<close>\<close>

definition java_output_path_var :: "store \<Rightarrow> pyval \<Rightarrow> pyval \<Rightarrow> error + pyval" where
  "java_output_path_var ctx output inputs =
     (case ctx_current_phase ctx of
        None \<Rightarrow> Inl AttributeError
      | Some ph \<Rightarrow> Inr (output_path ph))"

section \<open>Finalizing a command builder\<close>



definition resolve_command :: "externals \<Rightarrow> store \<Rightarrow> executor \<Rightarrow> error + string" where
  "resolve_command x ctx e =
     (case command e of
        NoCommand \<Rightarrow> Inl NotFound
      | ContextCommand cmd key dflt \<Rightarrow> which x (fallback ctx cmd key (PStr dflt)))"





section \<open>The JavaClasses extension\<close>

text \<open>
  Modelled from the spec: \<^verbatim>\<open>verify_type\<close> of \<^verbatim>\<open>ronin.utils.types\<close>, at the class \<^verbatim>\<open>Jar\<close>: a value that is not an instance of the class is a
  type mismatch, signalled at once. \<^verbatim>\<open>Jar\<close> has no subclass in the module.
\<close>

definition verify_type_Jar :: "executor \<Rightarrow> error option" where
  "verify_type_Jar e = (if cls e = JarClass then None else Some TypeMismatch)"

text \<open>
  \<^verbatim>\<open>
  def apply_to_phase(self, phase):
      verify_type(phase.executor, Jar)
      phase.rebuild_on_from.append(self._phase_name)
      phase.vars['inputs'] = _java_jar_inputs_var
      if not hasattr(phase, '_classes_extensions'):
          phase._classes_extensions = []
      phase._classes_extensions.append(self)
  \<close>
  The result is the exception raised, if any, and the phase as the call leaves it.
\<close>

definition apply_to_phase :: "extension \<Rightarrow> phase \<Rightarrow> error option \<times> phase" where
  "apply_to_phase self p =
     (case verify_type_Jar (executor p) of
        Some err \<Rightarrow> (Some err, p)
      | None \<Rightarrow>
          (let p1 = p\<lparr>rebuild_on_from := rebuild_on_from p @ [ext_phase_name self]\<rparr>;
               p2 = p1\<lparr>vars := (vars p1)(''inputs'' \<mapsto> VarFunction JavaJarInputsVar)\<rparr>;
               p3 = (if attrs p2 ''_classes_extensions'' = None
                     then p2\<lparr>attrs := (attrs p2)(''_classes_extensions'' \<mapsto> [])\<rparr>
                     else p2)
           in case attrs p3 ''_classes_extensions'' of
                None \<Rightarrow> (Some AttributeError, p3)
              | Some exts \<Rightarrow>
                  (None, p3\<lparr>attrs := (attrs p3)(''_classes_extensions'' \<mapsto> exts @ [self])\<rparr>)))"

text \<open>
  Modelled from the spec: the registration of extensions on a phase (\<^verbatim>\<open>ronin.phases\<close>,
  outside \<^verbatim>\<open>ronin/java/__init__.py\<close>): \<open>apply_to_phase\<close> is invoked once per extension, in
  attachment order; an exception ends the registration.
\<close>

fun apply_extensions :: "extension list \<Rightarrow> phase \<Rightarrow> error option \<times> phase" where
  "apply_extensions [] p = (None, p)"
| "apply_extensions (ext # exts) p =
     (case apply_to_phase ext p of
        (Some err, p') \<Rightarrow> (Some err, p')
      | (None, p') \<Rightarrow> apply_extensions exts p')"

text \<open>
  \<^verbatim>\<open>
  def apply_to_executor_java_jar(self, executor):
      executor.add_argument_unfiltered('$inputs')
  \<close>
\<close>

definition apply_to_executor_java_jar :: "extension \<Rightarrow> executor \<Rightarrow> executor" where
  "apply_to_executor_java_jar self e = add_argument_unfiltered [PStr ''$inputs''] e"

text \<open>
  The kind-specific actions of \<^verbatim>\<open>JavaClasses\<close>: the methods named
  \<^verbatim>\<open>apply_to_executor_<K>\<close>. There is one, for the kind \<^verbatim>\<open>java_jar\<close>.
\<close>

definition kind_action :: "string \<Rightarrow> (extension \<Rightarrow> executor \<Rightarrow> executor) option" where
  "kind_action K = (if K = ''java_jar'' then Some apply_to_executor_java_jar else None)"

text \<open>
  Modelled from the spec: dispatch by kind (\<^verbatim>\<open>ronin.phases\<close>). For each kind tag that the command builder declares, the extension's action for
  that kind, if it exists, is invoked with the command builder; the extensions of a phase
  are served in attachment order.
\<close>

fun dispatch_kinds :: "extension \<Rightarrow> string list \<Rightarrow> executor \<Rightarrow> executor" where
  "dispatch_kinds ext [] e = e"
| "dispatch_kinds ext (K # Ks) e =
     dispatch_kinds ext Ks (case kind_action K of Some act \<Rightarrow> act ext e | None \<Rightarrow> e)"

definition dispatch :: "extension \<Rightarrow> executor \<Rightarrow> executor" where
  "dispatch ext e = dispatch_kinds ext (remdups (command_types e)) e"

fun dispatch_all :: "extension list \<Rightarrow> executor \<Rightarrow> executor" where
  "dispatch_all [] e = e"
| "dispatch_all (ext # exts) e = dispatch_all exts (dispatch ext e)"

text \<open>
  \<^verbatim>\<open>
  @property
  def _classes_outputs(self):
      with current_context() as ctx:
          project_outputs = ctx.get('current.project_outputs')
      if project_outputs is None:
          return []
      phase_outputs = project_outputs.get(self._project)
      if phase_outputs is None:
          return []
      return phase_outputs.get(self._phase_name) or []
  \<close>
\<close>

definition classes_outputs :: "store \<Rightarrow> extension \<Rightarrow> output_desc list" where
  "classes_outputs ctx self =
     (case ctx_project_outputs ctx of
        None \<Rightarrow> []
      | Some project_outputs \<Rightarrow>
          (case project_outputs (ext_project self) of
             None \<Rightarrow> []
           | Some phase_outputs \<Rightarrow>
               (case phase_outputs (ext_phase_name self) of
                  None \<Rightarrow> []
                | Some outs \<Rightarrow> (if outs \<noteq> [] then outs else []))))"

section \<open>The inputs variable of a jar phase\<close>

text \<open>
  \<^verbatim>\<open>
  def arg(output):
      path = output.path
      the_file = output.file
      if not path.endswith(os.sep):
          path += os.sep
      path_length = len(path)
      if the_file.startswith(path):
          the_file = the_file[path_length:]
          return u'-C {path} {file}'.format(path=pathify(path), file=pathify(the_file))
      else:
          return pathify(the_file)
  \<close>
\<close>

definition with_sep :: "externals \<Rightarrow> string \<Rightarrow> string" where
  "with_sep x p = (if \<not> endswith p (os_sep x) then p @ os_sep x else p)"

definition arg :: "externals \<Rightarrow> output_desc \<Rightarrow> string" where
  "arg x output =
     (let p = with_sep x (out_path output);
          the_file = out_file output;
          path_length = length p
      in if startswith the_file p then
           ''-C '' @ pathify x (PStr p) @ '' '' @ pathify x (PStr (drop path_length the_file))
         else pathify x (PStr the_file))"

text \<open>
  \<^verbatim>\<open>
  outputs = []
  for classes_extension in phase._classes_extensions:
      outputs += classes_extension._classes_outputs
  \<close>
\<close>

fun gather_outputs :: "store \<Rightarrow> extension list \<Rightarrow> output_desc list \<Rightarrow> output_desc list" where
  "gather_outputs ctx [] outputs = outputs"
| "gather_outputs ctx (ce # ces) outputs =
     gather_outputs ctx ces (outputs @ classes_outputs ctx ce)"

text \<open>
  \<^verbatim>\<open>_java_jar_inputs_var(output, inputs)\<close>: the phase is \<^verbatim>\<open>ctx.current.phase\<close>; the read
  of \<^verbatim>\<open>phase._classes_extensions\<close> raises when the attribute was never set.
\<close>

definition java_jar_inputs_var :: "externals \<Rightarrow> store \<Rightarrow> pyval \<Rightarrow> pyval \<Rightarrow> error + string" where
  "java_jar_inputs_var x ctx output inputs =
     (case ctx_current_phase ctx of
        None \<Rightarrow> Inl AttributeError
      | Some ph \<Rightarrow>
          (case attrs ph ''_classes_extensions'' of
             None \<Rightarrow> Inl AttributeError
           | Some exts \<Rightarrow>
               Inr (join '' '' (map (arg x) (gather_outputs ctx exts [])))))"

text \<open>The extensions stashed on a phase: the list under the attribute, none when it is absent.\<close>

definition stash :: "phase \<Rightarrow> extension list" where
  "stash p = (case attrs p ''_classes_extensions'' of None \<Rightarrow> [] | Some exts \<Rightarrow> exts)"

section \<open>Example objects\<close>

text \<open>A store whose root scope sets the javac command, and stores built from it.\<close>

definition demo_root :: scope where
  "demo_root = empty_scope\<lparr>entries := [''java.javac_command'' \<mapsto> PStr ''javac'']\<rparr>"

definition demo_store :: store where
  "demo_store = \<lparr>root = demo_root, stack = []\<rparr>"

definition demo_override :: scope where
  "demo_override = empty_scope\<lparr>entries := [''java.javac_command'' \<mapsto> PStr ''custom-javac'']\<rparr>"

definition demo_debug_scope :: scope where
  "demo_debug_scope = empty_scope\<lparr>entries := [''build.debug'' \<mapsto> PBool True]\<rparr>"

text \<open>External collaborators that leave strings as they are, on a POSIX platform.\<close>

fun demo_str :: "pyval \<Rightarrow> string" where
  "demo_str (PStr s) = s"
| "demo_str (PFun f) = f"
| "demo_str v = ''None''"

definition demo_externals :: externals where
  "demo_externals =
     \<lparr>which = (\<lambda>v. case v of PStr s \<Rightarrow> Inr s | _ \<Rightarrow> Inl NotFound),
      pathify = demo_str, stringify = demo_str, argument_filter = demo_str,
      os_sep = ''/''\<rparr>"

text \<open>A registry in which project 1 has recorded the two outputs of its phase \<open>compile\<close>.\<close>

definition demo_outputs :: "output_desc list" where
  "demo_outputs =
     [\<lparr>out_path = ''build/classes'', out_file = ''build/classes/a.class''\<rparr>,
      \<lparr>out_path = ''build/classes/'', out_file = ''lib/b.class''\<rparr>]"

definition demo_registry :: registry where
  "demo_registry = [1 \<mapsto> [''compile'' \<mapsto> demo_outputs]]"

definition demo_registry_store :: store where
  "demo_registry_store =
     \<lparr>root = empty_scope\<lparr>current_project_outputs := Some demo_registry\<rparr>, stack = []\<rparr>"

text \<open>A phase with a jar executor and one with a compile executor, no extension attached.\<close>

definition demo_jar_phase :: phase where
  "demo_jar_phase =
     \<lparr>executor = Jar PNone PNone, rebuild_on_from = [], vars = Map.empty,
      input_path = PStr ''build/classes'', output_path = PStr ''build'', attrs = Map.empty\<rparr>"

definition demo_compile_phase :: phase where
  "demo_compile_phase =
     \<lparr>executor = JavaCompile PNone [], rebuild_on_from = [], vars = Map.empty,
      input_path = PStr ''src'', output_path = PStr ''build/classes'', attrs = Map.empty\<rparr>"

text \<open>
  A registry in which project 1 has recorded its phases \<open>compile\<close> and
  \<open>resources\<close>, and a store in which that registry is set and the current phase is the
  jar phase with two extensions attached: first the one for \<open>resources\<close>, then the one
  for \<open>compile\<close>.
\<close>

definition demo_resource_outputs :: "output_desc list" where
  "demo_resource_outputs = [\<lparr>out_path = ''res'', out_file = ''res/app.properties''\<rparr>]"

definition demo_full_registry :: registry where
  "demo_full_registry =
     [1 \<mapsto> [''compile'' \<mapsto> demo_outputs, ''resources'' \<mapsto> demo_resource_outputs]]"

definition demo_attached_phase :: phase where
  "demo_attached_phase =
     demo_jar_phase
       \<lparr>rebuild_on_from := [''resources'', ''compile''],
        vars := [''inputs'' \<mapsto> VarFunction JavaJarInputsVar],
        attrs := [''_classes_extensions'' \<mapsto>
                   [JavaClasses 1 ''resources'', JavaClasses 1 ''compile'']]\<rparr>"

definition demo_jar_store :: store where
  "demo_jar_store =
     \<lparr>root = empty_scope\<lparr>current_project_outputs := Some demo_full_registry\<rparr>,
      stack = [empty_scope\<lparr>current_phase := Some demo_attached_phase\<rparr>]\<rparr>"




section \<open>Properties of the store\<close>

lemma first_match_append:
  "first_match sel (xs @ ys) =
     (case first_match sel xs of Some v \<Rightarrow> Some v | None \<Rightarrow> first_match sel ys)"
  by (induction xs) (auto split: option.splits)

lemma scopes_not_Nil: "scopes ctx \<noteq> []"
  by (simp add: scopes_def)

lemma scopes_map_innermost:
  "scopes (map_innermost f ctx) = f (hd (scopes ctx)) # tl (scopes ctx)"
  by (cases "stack ctx") (simp_all add: scopes_def map_innermost_def)

lemma lookup_ctx_set:
  "lookup (ctx_set key v ctx) k = (if k = key then Some v else lookup ctx k)"
proof -
  obtain s ss where ss: "scopes ctx = s # ss"
    using scopes_not_Nil by (cases "scopes ctx") auto
  show ?thesis
    by (simp add: lookup_def ctx_set_def scopes_map_innermost ss)
qed

lemma ctx_get_ctx_set:
  "ctx_get (ctx_set key v ctx) k d = (if k = key then v else ctx_get ctx k d)"
  by (simp add: ctx_get_def lookup_ctx_set)

lemma lookup_push_scope:
  "lookup (push_scope s ctx) k = (case entries s k of Some v \<Rightarrow> Some v | None \<Rightarrow> lookup ctx k)"
  by (simp add: lookup_def push_scope_def scopes_def split: option.splits)

lemma pop_push_scope: "pop_scope (push_scope s ctx) = Inr ctx"
  by (simp add: pop_scope_def push_scope_def)

section \<open>configure_java\<close>

lemma py_or_command_value:
  "is_command_value v \<Longrightarrow>
     py_or v (PStr d) = (if v = PNone \<or> v = PStr [] then PStr d else v)"
  by (cases v) (auto simp: py_or_def)

text \<open>
  Claim C10. For arguments of the documented type (a string, a function or \<open>None\<close>),
  \<open>configure_java\<close> changes the innermost scope of the store in two entries and in nothing
  else: \<open>java.javac_command\<close> becomes \<open>javac\<close> when the argument \<open>javac_command\<close>
  is \<open>None\<close> or the empty string and the argument itself otherwise, and
  \<open>java.jar_command\<close> becomes \<open>jar\<close> when the argument \<open>jar_command\<close> is
  \<open>None\<close> or the empty string and the argument itself otherwise. Both values are what a
  lookup then returns, and every other key resolves as before.
\<close>

theorem configure_java_sets_two_entries:
  assumes "is_command_value javac_command" and "is_command_value jar_command"
  shows "configure_java javac_command jar_command ctx =
           map_innermost (\<lambda>s. s\<lparr>entries := (entries s)
              (''java.javac_command'' \<mapsto>
                 (if javac_command = PNone \<or> javac_command = PStr []
                  then PStr ''javac'' else javac_command),
               ''java.jar_command'' \<mapsto>
                 (if jar_command = PNone \<or> jar_command = PStr []
                  then PStr ''jar'' else jar_command))\<rparr>) ctx
       \<and> ctx_get (configure_java javac_command jar_command ctx) ''java.javac_command'' d =
           (if javac_command = PNone \<or> javac_command = PStr []
            then PStr ''javac'' else javac_command)
       \<and> ctx_get (configure_java javac_command jar_command ctx) ''java.jar_command'' d =
           (if jar_command = PNone \<or> jar_command = PStr []
            then PStr ''jar'' else jar_command)
       \<and> (k \<noteq> ''java.javac_command'' \<and> k \<noteq> ''java.jar_command'' \<longrightarrow>
           lookup (configure_java javac_command jar_command ctx) k = lookup ctx k)"
proof -
  have a: "py_or javac_command (PStr DEFAULT_JAVAC_COMMAND) =
      (if javac_command = PNone \<or> javac_command = PStr [] then PStr ''javac'' else javac_command)"
    using py_or_command_value[OF assms(1)] by (simp add: DEFAULT_JAVAC_COMMAND_def)
  have b: "py_or jar_command (PStr DEFAULT_JAR_COMMAND) =
      (if jar_command = PNone \<or> jar_command = PStr [] then PStr ''jar'' else jar_command)"
    using py_or_command_value[OF assms(2)] by (simp add: DEFAULT_JAR_COMMAND_def)
  have whole: "configure_java javac_command jar_command ctx =
           map_innermost (\<lambda>s. s\<lparr>entries := (entries s)
              (''java.javac_command'' \<mapsto>
                 (if javac_command = PNone \<or> javac_command = PStr []
                  then PStr ''javac'' else javac_command),
               ''java.jar_command'' \<mapsto>
                 (if jar_command = PNone \<or> jar_command = PStr []
                  then PStr ''jar'' else jar_command))\<rparr>) ctx"
    unfolding configure_java_def a b
    by (cases "stack ctx") (simp_all add: ctx_set_def map_innermost_def)
  have javac: "ctx_get (configure_java javac_command jar_command ctx) ''java.javac_command'' d =
           (if javac_command = PNone \<or> javac_command = PStr []
            then PStr ''javac'' else javac_command)"
    unfolding configure_java_def a b by (simp add: ctx_get_ctx_set)
  have jar: "ctx_get (configure_java javac_command jar_command ctx) ''java.jar_command'' d =
           (if jar_command = PNone \<or> jar_command = PStr []
            then PStr ''jar'' else jar_command)"
    unfolding configure_java_def a b by (simp add: ctx_get_ctx_set)
  have frame: "k \<noteq> ''java.javac_command'' \<and> k \<noteq> ''java.jar_command'' \<longrightarrow>
           lookup (configure_java javac_command jar_command ctx) k = lookup ctx k"
    unfolding configure_java_def by (simp add: lookup_ctx_set)
  from whole javac jar frame show ?thesis by blast
qed

theorem configure_java_sets_two_entries_witness:
  "is_command_value PNone \<and> is_command_value (PStr ''fastjar'')
   \<and> ctx_get (configure_java PNone (PStr ''fastjar'') demo_store) ''java.javac_command'' PNone
       = PStr ''javac''
   \<and> ctx_get (configure_java PNone (PStr ''fastjar'') demo_store) ''java.jar_command'' PNone
       = PStr ''fastjar''
   \<and> lookup (configure_java PNone (PStr ''fastjar'') demo_store) ''build.debug''
       = lookup demo_store ''build.debug''"
proof -
  have h1: "is_command_value PNone" by simp
  have h2: "is_command_value (PStr ''fastjar'')" by simp
  note r = configure_java_sets_two_entries [OF h1 h2, of demo_store PNone "''build.debug''"]
  have a: "ctx_get (configure_java PNone (PStr ''fastjar'') demo_store) ''java.javac_command''
             PNone = PStr ''javac''"
    using r [THEN conjunct2, THEN conjunct1] by simp
  have b: "ctx_get (configure_java PNone (PStr ''fastjar'') demo_store) ''java.jar_command''
             PNone = PStr ''fastjar''"
    using r [THEN conjunct2, THEN conjunct2, THEN conjunct1] by simp
  have c: "lookup (configure_java PNone (PStr ''fastjar'') demo_store) ''build.debug''
             = lookup demo_store ''build.debug''"
    using r [THEN conjunct2, THEN conjunct2, THEN conjunct2] by simp
  from h1 h2 a b c show ?thesis by blast
qed

section \<open>The debug hook\<close>

text \<open>
  Claim C8. Each time the debug hook runs on a compile executor it returns normally; it
  appends the filtered argument \<open>-g\<close> to the executor when the entry \<open>build.debug\<close>,
  looked up from the innermost scope outward with default \<open>False\<close>, is truthy, and
  returns the executor as it was when the entry is not truthy; in particular when the key
  is absent from every scope.
\<close>

theorem debug_hook_appends_g:
  assumes "cls e = JavaCompileClass"
  shows "(truthy (ctx_get ctx ''build.debug'' (PBool False)) \<longrightarrow>
            debug_hook e ctx = Inr (e\<lparr>arguments := arguments e @ [Arg True [PStr ''-g'']]\<rparr>))
       \<and> (\<not> truthy (ctx_get ctx ''build.debug'' (PBool False)) \<longrightarrow> debug_hook e ctx = Inr e)
       \<and> (lookup ctx ''build.debug'' = None \<longrightarrow> debug_hook e ctx = Inr e)"
  using assms by (simp add: debug_hook_def enable_debug_def add_argument_def ctx_get_def)

lemma JavaCompile_cls: "cls (JavaCompile cmd cp) = JavaCompileClass"
  by (simp add: JavaCompile_def hooks_append_def add_argument_unfiltered_def
      ExecutorWithArguments_init_def)

lemma JavaCompile_arguments: "arguments (JavaCompile cmd cp) = [Arg False [PStr ''$in'']]"
  by (simp add: JavaCompile_def hooks_append_def add_argument_unfiltered_def
      ExecutorWithArguments_init_def)


lemma JavaCompile_classpath: "classpath (JavaCompile cmd cp) = Some cp"
  by (simp add: JavaCompile_def hooks_append_def add_argument_unfiltered_def
      ExecutorWithArguments_init_def)

lemma JavaCompile_command:
  "command (JavaCompile cmd cp) = ContextCommand cmd ''java.javac_command'' ''javac''"
  by (simp add: JavaCompile_def hooks_append_def add_argument_unfiltered_def
      ExecutorWithArguments_init_def DEFAULT_JAVAC_COMMAND_def)

lemma JavaCompile_command_types: "command_types (JavaCompile cmd cp) = []"
  by (simp add: JavaCompile_def hooks_append_def add_argument_unfiltered_def
      ExecutorWithArguments_init_def)

lemma demo_debug_on:
  "ctx_get (push_scope demo_debug_scope demo_store) ''build.debug'' (PBool False) = PBool True"
  by (simp add: ctx_get_def lookup_push_scope demo_debug_scope_def empty_scope_def)

lemma demo_debug_off: "lookup demo_store ''build.debug'' = None"
  by (simp add: lookup_def scopes_def demo_store_def demo_root_def empty_scope_def)

theorem debug_hook_appends_g_witness:
  "cls (JavaCompile PNone []) = JavaCompileClass
   \<and> truthy (ctx_get (push_scope demo_debug_scope demo_store) ''build.debug'' (PBool False))
   \<and> debug_hook (JavaCompile PNone []) (push_scope demo_debug_scope demo_store) =
       Inr ((JavaCompile PNone [])\<lparr>arguments := [Arg False [PStr ''$in''], Arg True [PStr ''-g'']]\<rparr>)
   \<and> lookup demo_store ''build.debug'' = None
   \<and> debug_hook (JavaCompile PNone []) demo_store = Inr (JavaCompile PNone [])"
proof -
  have c: "cls (JavaCompile PNone []) = JavaCompileClass" by (rule JavaCompile_cls)
  have t: "truthy (ctx_get (push_scope demo_debug_scope demo_store) ''build.debug'' (PBool False))"
    by (simp add: demo_debug_on)
  have a: "debug_hook (JavaCompile PNone []) (push_scope demo_debug_scope demo_store) =
       Inr ((JavaCompile PNone [])\<lparr>arguments := [Arg False [PStr ''$in''], Arg True [PStr ''-g'']]\<rparr>)"
    using debug_hook_appends_g [OF c, of "push_scope demo_debug_scope demo_store",
        THEN conjunct1] t
    by (simp add: JavaCompile_arguments)
  have b: "debug_hook (JavaCompile PNone []) demo_store = Inr (JavaCompile PNone [])"
    using debug_hook_appends_g [OF c, of demo_store, THEN conjunct2, THEN conjunct2]
      demo_debug_off
    by simp
  from c t a b demo_debug_off show ?thesis by blast
qed

section \<open>The classpath hook\<close>

text \<open>
  Claim C9. On an executor that has a classpath, the classpath hook returns the executor
  unchanged when the classpath is empty; when it is not, the result differs from the
  executor only in its argument sequence, which has gained at its end one filtered
  \<open>-classpath\<close> argument whose value is the pathified entries of the classpath joined by
  \<open>:\<close> in list order.
\<close>

theorem classpath_hook_frame:
  assumes "classpath e = Some cp"
  shows "(cp = [] \<longrightarrow> classpath_hook x e = Inr e)
       \<and> (cp \<noteq> [] \<longrightarrow> classpath_hook x e =
            Inr (e\<lparr>arguments := arguments e @
                   [Arg True [PStr ''-classpath'', PStr (join '':'' (map (pathify x) cp))]]\<rparr>))"
  using assms by (simp add: classpath_hook_def add_argument_def)

theorem classpath_hook_frame_witness:
  "classpath (JavaCompile PNone []) = Some []
   \<and> classpath_hook demo_externals (JavaCompile PNone []) = Inr (JavaCompile PNone [])
   \<and> classpath (JavaCompile PNone [PStr ''lib/a.jar'', PStr ''lib/b.jar'']) =
       Some [PStr ''lib/a.jar'', PStr ''lib/b.jar'']
   \<and> classpath_hook demo_externals (JavaCompile PNone [PStr ''lib/a.jar'', PStr ''lib/b.jar'']) =
       Inr ((JavaCompile PNone [PStr ''lib/a.jar'', PStr ''lib/b.jar''])
              \<lparr>arguments := [Arg False [PStr ''$in''],
                             Arg True [PStr ''-classpath'', PStr ''lib/a.jar:lib/b.jar'']]\<rparr>)"
proof -
  have c0: "classpath (JavaCompile PNone []) = Some []" by (rule JavaCompile_classpath)
  have c2: "classpath (JavaCompile PNone [PStr ''lib/a.jar'', PStr ''lib/b.jar'']) =
       Some [PStr ''lib/a.jar'', PStr ''lib/b.jar'']" by (rule JavaCompile_classpath)
  have a: "classpath_hook demo_externals (JavaCompile PNone []) = Inr (JavaCompile PNone [])"
    using classpath_hook_frame [OF c0, of demo_externals, THEN conjunct1] by simp
  have b: "classpath_hook demo_externals (JavaCompile PNone [PStr ''lib/a.jar'', PStr ''lib/b.jar'']) =
       Inr ((JavaCompile PNone [PStr ''lib/a.jar'', PStr ''lib/b.jar''])
              \<lparr>arguments := [Arg False [PStr ''$in''],
                             Arg True [PStr ''-classpath'', PStr ''lib/a.jar:lib/b.jar'']]\<rparr>)"
    using classpath_hook_frame [OF c2, of demo_externals, THEN conjunct2]
    by (simp add: JavaCompile_arguments demo_externals_def)
  from c0 c2 a b show ?thesis by blast
qed

section \<open>Recorded outputs of another phase\<close>

text \<open>
  Claim C2. A query of another phase's recorded outputs through a \<open>JavaClasses\<close>
  extension always returns a list, and the list is empty when the context has no output
  registry, when the registry does not know the extension's project, and when the project's
  entry does not have the named phase.
\<close>

theorem classes_outputs_empty:
  "(ctx_project_outputs ctx = None \<longrightarrow> classes_outputs ctx ext = [])
 \<and> (\<forall>reg. ctx_project_outputs ctx = Some reg \<and> reg (ext_project ext) = None \<longrightarrow>
       classes_outputs ctx ext = [])
 \<and> (\<forall>reg po. ctx_project_outputs ctx = Some reg \<and> reg (ext_project ext) = Some po \<and>
       po (ext_phase_name ext) = None \<longrightarrow> classes_outputs ctx ext = [])"
  by (simp add: classes_outputs_def)

lemma demo_store_no_registry: "ctx_project_outputs demo_store = None"
  by (simp add: ctx_project_outputs_def scopes_def demo_store_def demo_root_def empty_scope_def)

lemma demo_registry_store_registry: "ctx_project_outputs demo_registry_store = Some demo_registry"
  by (simp add: ctx_project_outputs_def scopes_def demo_registry_store_def empty_scope_def)

theorem classes_outputs_empty_witness:
  "ctx_project_outputs demo_store = None
   \<and> classes_outputs demo_store (JavaClasses 1 ''compile'') = []
   \<and> ctx_project_outputs demo_registry_store = Some demo_registry
   \<and> demo_registry (ext_project (JavaClasses 2 ''compile'')) = None
   \<and> classes_outputs demo_registry_store (JavaClasses 2 ''compile'') = []
   \<and> demo_registry (ext_project (JavaClasses 1 ''test'')) = Some [''compile'' \<mapsto> demo_outputs]
   \<and> [''compile'' \<mapsto> demo_outputs] (ext_phase_name (JavaClasses 1 ''test'')) = None
   \<and> classes_outputs demo_registry_store (JavaClasses 1 ''test'') = []"
proof -
  have p2: "demo_registry (ext_project (JavaClasses 2 ''compile'')) = None"
    by (simp add: demo_registry_def JavaClasses_def)
  have p1: "demo_registry (ext_project (JavaClasses 1 ''test'')) = Some [''compile'' \<mapsto> demo_outputs]"
    by (simp add: demo_registry_def JavaClasses_def)
  have n1: "[''compile'' \<mapsto> demo_outputs] (ext_phase_name (JavaClasses 1 ''test'')) = None"
    by (simp add: JavaClasses_def)
  have a: "classes_outputs demo_store (JavaClasses 1 ''compile'') = []"
    using classes_outputs_empty [of demo_store "JavaClasses 1 ''compile''", THEN conjunct1]
      demo_store_no_registry by blast
  have b: "classes_outputs demo_registry_store (JavaClasses 2 ''compile'') = []"
    using classes_outputs_empty [of demo_registry_store "JavaClasses 2 ''compile''",
        THEN conjunct2, THEN conjunct1] demo_registry_store_registry p2 by blast
  have c: "classes_outputs demo_registry_store (JavaClasses 1 ''test'') = []"
    using classes_outputs_empty [of demo_registry_store "JavaClasses 1 ''test''",
        THEN conjunct2, THEN conjunct2] demo_registry_store_registry p1 n1 by blast
  from demo_store_no_registry demo_registry_store_registry p2 p1 n1 a b c
  show ?thesis by blast
qed

section \<open>The command of a compile executor\<close>

text \<open>
  Claim C3. The command of a \<open>JavaCompile\<close> builder constructed with \<open>command=None\<close>
  resolves to the executable resolution of the value that \<open>java.javac_command\<close> has in
  the store, looked up from the innermost active scope outward, and of \<open>javac\<close> when no
  scope sets the key; for an explicit command that is not empty, the executable resolution
  of that command is the result, whatever the store holds.
\<close>

theorem JavaCompile_command_resolution:
  "resolve_command x ctx (JavaCompile PNone cp) =
     which x (ctx_get ctx ''java.javac_command'' (PStr ''javac''))
 \<and> (lookup ctx ''java.javac_command'' = None \<longrightarrow>
       resolve_command x ctx (JavaCompile PNone cp) = which x (PStr ''javac''))
 \<and> (\<forall>v. lookup ctx ''java.javac_command'' = Some v \<longrightarrow>
       resolve_command x ctx (JavaCompile PNone cp) = which x v)
 \<and> (\<not> is_empty_value cmd \<longrightarrow> resolve_command x ctx (JavaCompile cmd cp) = which x cmd)"
  by (simp add: resolve_command_def JavaCompile_command fallback_def ctx_get_def)

lemma demo_lookup_root: "lookup demo_store ''java.javac_command'' = Some (PStr ''javac'')"
  by (simp add: lookup_def scopes_def demo_store_def demo_root_def empty_scope_def)

lemma demo_lookup_pushed:
  "lookup (push_scope empty_scope demo_store) ''java.javac_command'' = Some (PStr ''javac'')"
  by (simp add: lookup_push_scope demo_lookup_root empty_scope_def)

lemma demo_lookup_override:
  "lookup (push_scope demo_override (push_scope empty_scope demo_store)) ''java.javac_command''
     = Some (PStr ''custom-javac'')"
  by (simp add: lookup_push_scope demo_override_def empty_scope_def)

lemma demo_lookup_unset:
  "lookup \<lparr>root = empty_scope, stack = []\<rparr> ''java.javac_command'' = None"
  by (simp add: lookup_def scopes_def empty_scope_def)

theorem JavaCompile_command_resolution_witness:
  "lookup (push_scope empty_scope demo_store) ''java.javac_command'' = Some (PStr ''javac'')
   \<and> resolve_command demo_externals (push_scope empty_scope demo_store) (JavaCompile PNone [])
       = Inr ''javac''
   \<and> lookup (push_scope demo_override (push_scope empty_scope demo_store)) ''java.javac_command''
       = Some (PStr ''custom-javac'')
   \<and> resolve_command demo_externals
         (push_scope demo_override (push_scope empty_scope demo_store)) (JavaCompile PNone [])
       = Inr ''custom-javac''
   \<and> pop_scope (push_scope demo_override (push_scope empty_scope demo_store))
       = Inr (push_scope empty_scope demo_store)
   \<and> lookup \<lparr>root = empty_scope, stack = []\<rparr> ''java.javac_command'' = None
   \<and> resolve_command demo_externals \<lparr>root = empty_scope, stack = []\<rparr> (JavaCompile PNone [])
       = Inr ''javac''
   \<and> \<not> is_empty_value (PStr ''ecj'')
   \<and> resolve_command demo_externals
         (push_scope demo_override (push_scope empty_scope demo_store))
         (JavaCompile (PStr ''ecj'') [])
       = Inr ''ecj''"
proof -
  have w: "\<And>s. which demo_externals (PStr s) = Inr s"
    by (simp add: demo_externals_def)
  have a: "resolve_command demo_externals (push_scope empty_scope demo_store)
             (JavaCompile PNone []) = Inr ''javac''"
    using JavaCompile_command_resolution
            [of demo_externals "push_scope empty_scope demo_store" "[]" PNone,
             THEN conjunct2, THEN conjunct2, THEN conjunct1]
      demo_lookup_pushed
    by (simp add: w)
  have b: "resolve_command demo_externals
             (push_scope demo_override (push_scope empty_scope demo_store))
             (JavaCompile PNone []) = Inr ''custom-javac''"
    using JavaCompile_command_resolution
            [of demo_externals "push_scope demo_override (push_scope empty_scope demo_store)"
                "[]" PNone, THEN conjunct2, THEN conjunct2, THEN conjunct1]
      demo_lookup_override
    by (simp add: w)
  have c: "resolve_command demo_externals \<lparr>root = empty_scope, stack = []\<rparr>
             (JavaCompile PNone []) = Inr ''javac''"
    using JavaCompile_command_resolution
            [of demo_externals "\<lparr>root = empty_scope, stack = []\<rparr>" "[]" PNone,
             THEN conjunct2, THEN conjunct1]
      demo_lookup_unset
    by (simp add: w)
  have e: "\<not> is_empty_value (PStr ''ecj'')" by simp
  have d: "resolve_command demo_externals
             (push_scope demo_override (push_scope empty_scope demo_store))
             (JavaCompile (PStr ''ecj'') []) = Inr ''ecj''"
    using JavaCompile_command_resolution
            [of demo_externals "push_scope demo_override (push_scope empty_scope demo_store)"
                "[]" "PStr ''ecj''", THEN conjunct2, THEN conjunct2, THEN conjunct2] e
    by (simp add: w)
  from a b c d e demo_lookup_pushed demo_lookup_override demo_lookup_unset
    pop_push_scope [of demo_override "push_scope empty_scope demo_store"]
  show ?thesis by blast
qed

section \<open>Attaching a JavaClasses extension to a phase\<close>

text \<open>
  Claim C4. On a phase whose executor is not a \<open>Jar\<close> instance, \<open>apply_to_phase\<close>
  raises the type mismatch of \<open>verify_type\<close> and leaves the phase as it was: its
  rebuild-on list, its variables and the attributes set on it are unchanged.
\<close>

theorem apply_to_phase_rejects_non_jar:
  assumes "cls (executor p) \<noteq> JarClass"
  shows "apply_to_phase ext p = (Some TypeMismatch, p)
       \<and> rebuild_on_from (snd (apply_to_phase ext p)) = rebuild_on_from p
       \<and> vars (snd (apply_to_phase ext p)) = vars p
       \<and> attrs (snd (apply_to_phase ext p)) = attrs p"
  using assms by (simp add: apply_to_phase_def verify_type_Jar_def)

theorem apply_to_phase_rejects_non_jar_witness:
  "cls (executor demo_compile_phase) \<noteq> JarClass
   \<and> apply_to_phase (JavaClasses 1 ''compile'') demo_compile_phase
       = (Some TypeMismatch, demo_compile_phase)
   \<and> vars demo_compile_phase ''inputs'' = None
   \<and> rebuild_on_from demo_compile_phase = []
   \<and> attrs demo_compile_phase ''_classes_extensions'' = None"
proof -
  have c: "cls (executor demo_compile_phase) \<noteq> JarClass"
    by (simp add: demo_compile_phase_def JavaCompile_cls)
  from apply_to_phase_rejects_non_jar [OF c, of "JavaClasses 1 ''compile''", THEN conjunct1] c
  show ?thesis by (simp add: demo_compile_phase_def)
qed

lemma apply_to_phase_Jar:
  assumes "cls (executor p) = JarClass"
  shows "apply_to_phase ext p =
     (None, p\<lparr>rebuild_on_from := rebuild_on_from p @ [ext_phase_name ext],
              vars := (vars p)(''inputs'' \<mapsto> VarFunction JavaJarInputsVar),
              attrs := (attrs p)(''_classes_extensions'' \<mapsto> stash p @ [ext])\<rparr>)"
  using assms
  by (cases "attrs p ''_classes_extensions''")
     (simp_all add: apply_to_phase_def verify_type_Jar_def Let_def stash_def)

lemma stash_attach:
  "stash (p\<lparr>rebuild_on_from := r, vars := v,
            attrs := (attrs p)(''_classes_extensions'' \<mapsto> xs)\<rparr>) = xs"
  by (simp add: stash_def)

lemma apply_extensions_Jar:
  assumes "cls (executor p) = JarClass" and "exts \<noteq> []"
  shows "apply_extensions exts p =
     (None, p\<lparr>rebuild_on_from := rebuild_on_from p @ map ext_phase_name exts,
              vars := (vars p)(''inputs'' \<mapsto> VarFunction JavaJarInputsVar),
              attrs := (attrs p)(''_classes_extensions'' \<mapsto> stash p @ exts)\<rparr>)"
  using assms
proof (induction exts arbitrary: p)
  case Nil
  then show ?case by simp
next
  case (Cons a exts)
  define p' where "p' = p\<lparr>rebuild_on_from := rebuild_on_from p @ [ext_phase_name a],
              vars := (vars p)(''inputs'' \<mapsto> VarFunction JavaJarInputsVar),
              attrs := (attrs p)(''_classes_extensions'' \<mapsto> stash p @ [a])\<rparr>"
  have step: "apply_extensions (a # exts) p = apply_extensions exts p'"
    by (simp add: apply_to_phase_Jar[OF Cons.prems(1)] p'_def)
  show ?case
  proof (cases "exts = []")
    case True
    then show ?thesis unfolding step by (simp add: p'_def fun_upd_def)
  next
    case False
    have jar: "cls (executor p') = JarClass"
      using Cons.prems(1) by (simp add: p'_def)
    have st: "stash p' = stash p @ [a]"
      unfolding p'_def by (rule stash_attach)
    have "apply_extensions exts p' =
       (None, p'\<lparr>rebuild_on_from := rebuild_on_from p' @ map ext_phase_name exts,
              vars := (vars p')(''inputs'' \<mapsto> VarFunction JavaJarInputsVar),
              attrs := (attrs p')(''_classes_extensions'' \<mapsto> stash p' @ exts)\<rparr>)"
      by (rule Cons.IH[OF jar False])
    also have "p'\<lparr>rebuild_on_from := rebuild_on_from p' @ map ext_phase_name exts,
              vars := (vars p')(''inputs'' \<mapsto> VarFunction JavaJarInputsVar),
              attrs := (attrs p')(''_classes_extensions'' \<mapsto> stash p' @ exts)\<rparr> =
         p\<lparr>rebuild_on_from := rebuild_on_from p @ map ext_phase_name (a # exts),
              vars := (vars p)(''inputs'' \<mapsto> VarFunction JavaJarInputsVar),
              attrs := (attrs p)(''_classes_extensions'' \<mapsto> stash p @ a # exts)\<rparr>"
      unfolding st by (simp add: p'_def fun_upd_def cong: if_cong)
    finally show ?thesis unfolding step .
  qed
qed

text \<open>
  Claim C5. On a phase with a \<open>Jar\<close> executor, \<open>apply_to_phase\<close> returns normally and
  changes the phase in three places only: the referenced phase's name is appended to
  \<open>rebuild_on_from\<close>, the variable \<open>inputs\<close> is bound to the jar-inputs resolver, and the
  extension is appended to the list kept under the attribute \<open>_classes_extensions\<close>, the
  attribute of the \<open>JavaClasses\<close> kind (created when absent); attributes of other names
  are untouched. Attaching a non-empty list of such extensions appends all their phase names
  and all the extensions, in attachment order.
\<close>

theorem apply_to_phase_attaches:
  assumes "cls (executor p) = JarClass"
  shows "apply_to_phase ext p =
           (None, p\<lparr>rebuild_on_from := rebuild_on_from p @ [ext_phase_name ext],
                    vars := (vars p)(''inputs'' \<mapsto> VarFunction JavaJarInputsVar),
                    attrs := (attrs p)(''_classes_extensions'' \<mapsto> stash p @ [ext])\<rparr>)
       \<and> (\<forall>k. k \<noteq> ''_classes_extensions'' \<longrightarrow>
             attrs (snd (apply_to_phase ext p)) k = attrs p k)
       \<and> (exts \<noteq> [] \<longrightarrow> apply_extensions exts p =
           (None, p\<lparr>rebuild_on_from := rebuild_on_from p @ map ext_phase_name exts,
                    vars := (vars p)(''inputs'' \<mapsto> VarFunction JavaJarInputsVar),
                    attrs := (attrs p)(''_classes_extensions'' \<mapsto> stash p @ exts)\<rparr>))"
  using assms by (simp add: apply_to_phase_Jar apply_extensions_Jar)

lemma demo_jar_phase_cls: "cls (executor demo_jar_phase) = JarClass"
  by (simp add: demo_jar_phase_def Jar_def add_argument_unfiltered_def
      ExecutorWithArguments_init_def)

theorem apply_to_phase_attaches_witness:
  "cls (executor demo_jar_phase) = JarClass
   \<and> [JavaClasses 1 ''compile'', JavaClasses 1 ''resources''] \<noteq> []
   \<and> apply_to_phase (JavaClasses 1 ''compile'') demo_jar_phase =
       (None, demo_jar_phase
          \<lparr>rebuild_on_from := [''compile''],
           vars := [''inputs'' \<mapsto> VarFunction JavaJarInputsVar],
           attrs := [''_classes_extensions'' \<mapsto> [JavaClasses 1 ''compile'']]\<rparr>)
   \<and> apply_extensions [JavaClasses 1 ''compile'', JavaClasses 1 ''resources''] demo_jar_phase =
       (None, demo_jar_phase
          \<lparr>rebuild_on_from := [''compile'', ''resources''],
           vars := [''inputs'' \<mapsto> VarFunction JavaJarInputsVar],
           attrs := [''_classes_extensions'' \<mapsto>
                      [JavaClasses 1 ''compile'', JavaClasses 1 ''resources'']]\<rparr>)"
proof -
  have st: "stash demo_jar_phase = []" "rebuild_on_from demo_jar_phase = []"
    "vars demo_jar_phase = Map.empty" "attrs demo_jar_phase = Map.empty"
    by (simp_all add: stash_def demo_jar_phase_def)
  have ne: "[JavaClasses 1 ''compile'', JavaClasses 1 ''resources''] \<noteq> []" by simp
  note r = apply_to_phase_attaches [OF demo_jar_phase_cls, of "JavaClasses 1 ''compile''"
      "[JavaClasses 1 ''compile'', JavaClasses 1 ''resources'']"]
  have a: "apply_to_phase (JavaClasses 1 ''compile'') demo_jar_phase =
       (None, demo_jar_phase
          \<lparr>rebuild_on_from := [''compile''],
           vars := [''inputs'' \<mapsto> VarFunction JavaJarInputsVar],
           attrs := [''_classes_extensions'' \<mapsto> [JavaClasses 1 ''compile'']]\<rparr>)"
    using r [THEN conjunct1] by (simp add: st JavaClasses_def)
  have b: "apply_extensions [JavaClasses 1 ''compile'', JavaClasses 1 ''resources''] demo_jar_phase =
       (None, demo_jar_phase
          \<lparr>rebuild_on_from := [''compile'', ''resources''],
           vars := [''inputs'' \<mapsto> VarFunction JavaJarInputsVar],
           attrs := [''_classes_extensions'' \<mapsto>
                      [JavaClasses 1 ''compile'', JavaClasses 1 ''resources'']]\<rparr>)"
    using r [THEN conjunct2, THEN conjunct2] ne by (simp add: st JavaClasses_def)
  from demo_jar_phase_cls ne a b show ?thesis by blast
qed

section \<open>Dispatch by kind\<close>

lemma Jar_command_types: "command_types (Jar cmd manifest) = [''java_jar'']"
  by (simp add: Jar_def Let_def add_argument_def add_argument_unfiltered_def
      ExecutorWithArguments_init_def)

lemma apply_to_executor_java_jar_arguments:
  "apply_to_executor_java_jar ext e =
     e\<lparr>arguments := arguments e @ [Arg False [PStr ''$inputs'']]\<rparr>"
  by (simp add: apply_to_executor_java_jar_def add_argument_unfiltered_def)

lemma dispatch_kinds_distinct:
  "distinct Ks \<Longrightarrow> dispatch_kinds ext Ks e =
     (if ''java_jar'' \<in> set Ks then apply_to_executor_java_jar ext e else e)"
proof (induction Ks arbitrary: e)
  case Nil
  then show ?case by simp
next
  case (Cons K Ks)
  then show ?case by (auto simp: kind_action_def)
qed

lemma dispatch_eq:
  "dispatch ext e =
     (if ''java_jar'' \<in> set (command_types e) then apply_to_executor_java_jar ext e else e)"
  by (simp add: dispatch_def dispatch_kinds_distinct)

text \<open>
  Claim C7. A \<open>Jar\<close> command builder declares the kind tags \<open>[java_jar]\<close> and no other.
  The \<open>java_jar\<close> action of a \<open>JavaClasses\<close> extension appends the unfiltered argument
  \<open>$inputs\<close> to the builder, each time it is called. Dispatch invokes the action on every
  builder that declares \<open>java_jar\<close>, so on every \<open>Jar\<close>, and leaves every builder
  that lacks the tag as it was, so every \<open>JavaCompile\<close>, which declares no tag.
\<close>

theorem java_jar_dispatch:
  "command_types (Jar cmd manifest) = [''java_jar'']
 \<and> command_types (JavaCompile cmd cp) = []
 \<and> apply_to_executor_java_jar ext e = e\<lparr>arguments := arguments e @ [Arg False [PStr ''$inputs'']]\<rparr>
 \<and> (''java_jar'' \<in> set (command_types e) \<longrightarrow>
       dispatch ext e = e\<lparr>arguments := arguments e @ [Arg False [PStr ''$inputs'']]\<rparr>)
 \<and> (''java_jar'' \<notin> set (command_types e) \<longrightarrow> dispatch ext e = e)
 \<and> dispatch ext (Jar cmd manifest) =
       (Jar cmd manifest)\<lparr>arguments := arguments (Jar cmd manifest) @ [Arg False [PStr ''$inputs'']]\<rparr>
 \<and> dispatch ext (JavaCompile cmd cp) = JavaCompile cmd cp"
  by (simp add: Jar_command_types apply_to_executor_java_jar_arguments dispatch_eq
      JavaCompile_command_types)

lemma Jar_None_arguments:
  "arguments (Jar PNone PNone) = [Arg False [PStr ''cf''], Arg False [PStr ''$out'']]"
  by (simp add: Jar_def Let_def add_argument_unfiltered_def ExecutorWithArguments_init_def)

theorem java_jar_dispatch_witness:
  "''java_jar'' \<in> set (command_types (Jar PNone PNone))
   \<and> dispatch (JavaClasses 1 ''compile'') (Jar PNone PNone) =
       (Jar PNone PNone)\<lparr>arguments := [Arg False [PStr ''cf''], Arg False [PStr ''$out''],
                                        Arg False [PStr ''$inputs'']]\<rparr>
   \<and> ''java_jar'' \<notin> set (command_types (JavaCompile PNone []))
   \<and> dispatch (JavaClasses 1 ''compile'') (JavaCompile PNone []) = JavaCompile PNone []"
proof -
  have m: "''java_jar'' \<in> set (command_types (Jar PNone PNone))"
    by (simp add: Jar_command_types)
  have n: "''java_jar'' \<notin> set (command_types (JavaCompile PNone []))"
    by (simp add: JavaCompile_command_types)
  have a: "dispatch (JavaClasses 1 ''compile'') (Jar PNone PNone) =
       (Jar PNone PNone)\<lparr>arguments := [Arg False [PStr ''cf''], Arg False [PStr ''$out''],
                                        Arg False [PStr ''$inputs'']]\<rparr>"
    using java_jar_dispatch [of PNone PNone "[]" "JavaClasses 1 ''compile''" "Jar PNone PNone",
        THEN conjunct2, THEN conjunct2, THEN conjunct2, THEN conjunct1] m
    by (simp add: Jar_None_arguments)
  have b: "dispatch (JavaClasses 1 ''compile'') (JavaCompile PNone []) = JavaCompile PNone []"
    using java_jar_dispatch [of PNone PNone "[]" "JavaClasses 1 ''compile''" "JavaCompile PNone []",
        THEN conjunct2, THEN conjunct2, THEN conjunct2, THEN conjunct2, THEN conjunct1] n
    by simp
  from m n a b show ?thesis by blast
qed

section \<open>The inputs variable of a jar phase\<close>

lemma gather_outputs_concat:
  "gather_outputs ctx exts acc = acc @ concat (map (classes_outputs ctx) exts)"
  by (induction exts arbitrary: acc) simp_all

lemma startswith_append: "startswith (p @ r) p"
  by (simp add: startswith_def)

lemma startswith_prefix: "startswith s p = prefix p s"
  by (auto simp: startswith_def prefix_def) (metis append_take_drop_id)

lemma endswith_suffix: "endswith s p = suffix p s"
proof
  assume "endswith s p"
  then have "s = take (length s - length p) s @ p"
    by (metis append_take_drop_id endswith_def)
  then show "suffix p s" by (metis suffixI)
next
  assume "suffix p s"
  then obtain r where "s = r @ p" by (auto simp: suffix_def)
  then show "endswith s p" by (simp add: endswith_def)
qed

lemma arg_inside:
  "out_file output = with_sep x (out_path output) @ rel \<Longrightarrow>
     arg x output = ''-C '' @ pathify x (PStr (with_sep x (out_path output))) @ '' '' @
                    pathify x (PStr rel)"
  by (simp add: arg_def Let_def startswith_append)

lemma arg_outside:
  "\<not> prefix (with_sep x (out_path output)) (out_file output) \<Longrightarrow>
     arg x output = pathify x (PStr (out_file output))"
  by (simp add: arg_def Let_def startswith_prefix)

lemma with_sep_cases:
  "with_sep x p = (if suffix (os_sep x) p then p else p @ os_sep x)"
  by (simp add: with_sep_def endswith_suffix)

lemma stash_apply_extensions:
  assumes "cls (executor p0) = JarClass" and "exts \<noteq> []"
    and "apply_extensions exts p0 = (None, ph)"
  shows "attrs ph ''_classes_extensions'' = Some (stash p0 @ exts)"
  using assms(3) unfolding apply_extensions_Jar [OF assms(1,2)] by auto

lemma classes_outputs_recorded:
  assumes "ctx_project_outputs ctx = Some reg"
    and "reg (ext_project ext) = Some po" and "po (ext_phase_name ext) = Some outs"
  shows "classes_outputs ctx ext = outs"
  using assms by (simp add: classes_outputs_def)

lemma map_classes_outputs_recorded:
  assumes "ctx_project_outputs ctx = Some reg"
    and "list_all2 (\<lambda>ext os. \<exists>po. reg (ext_project ext) = Some po \<and>
                                 po (ext_phase_name ext) = Some os) exts outs"
  shows "map (classes_outputs ctx) exts = outs"
  using assms(2)
proof (induction rule: list_all2_induct)
  case Nil
  then show ?case by simp
next
  case (Cons ext exts os outs)
  then show ?case
    using classes_outputs_recorded [OF assms(1)] by auto
qed

text \<open>
  Claim C6. Let the current phase be a jar phase to which the \<open>JavaClasses\<close> extensions
  \<open>exts\<close> (at least one) were attached, in that order, none being stashed before. Then
  the inputs variable resolves, without raising, to the renderings, joined by single spaces,
  of the outputs that the extensions find for their phases, in attachment order. Where the
  registry of the store records the list \<open>outs ! i\<close> for the phase of the \<open>i\<close>-th
  extension, for every \<open>i\<close>, these are the recorded lists themselves: the result renders
  every output of the first list in its recorded order, then every output of the second,
  and so on. The directory of an output is its path, with the path separator appended
  unless it ends with it already. An output whose file is the directory followed by a rest
  is rendered as \<open>-C\<close>, the pathified directory and the pathified rest, separated by
  spaces; an output whose file does not start with the directory is rendered as its
  pathified file alone.
\<close>

theorem java_jar_inputs_var_renders:
  assumes "cls (executor p0) = JarClass" and "attrs p0 ''_classes_extensions'' = None"
    and "exts \<noteq> []" and "apply_extensions exts p0 = (None, ph)"
    and "ctx_current_phase ctx = Some ph"
  shows "java_jar_inputs_var x ctx output inputs =
           Inr (join '' '' (map (arg x) (concat (map (classes_outputs ctx) exts))))
       \<and> (\<forall>reg outs.
             ctx_project_outputs ctx = Some reg \<and>
             list_all2 (\<lambda>ext os. \<exists>po. reg (ext_project ext) = Some po \<and>
                                      po (ext_phase_name ext) = Some os) exts outs \<longrightarrow>
             java_jar_inputs_var x ctx output inputs =
               Inr (join '' '' (map (arg x) (concat outs))))
       \<and> (\<forall>out rel. out_file out = with_sep x (out_path out) @ rel \<longrightarrow>
             arg x out = ''-C '' @ pathify x (PStr (with_sep x (out_path out))) @ '' '' @
                         pathify x (PStr rel))
       \<and> (\<forall>out. \<not> prefix (with_sep x (out_path out)) (out_file out) \<longrightarrow>
             arg x out = pathify x (PStr (out_file out)))
       \<and> (\<forall>d. with_sep x d = (if suffix (os_sep x) d then d else d @ os_sep x))"
proof -
  have "stash p0 = []" using assms(2) by (simp add: stash_def)
  with stash_apply_extensions [OF assms(1,3,4)]
  have "attrs ph ''_classes_extensions'' = Some exts" by simp
  then have general: "java_jar_inputs_var x ctx output inputs =
           Inr (join '' '' (map (arg x) (concat (map (classes_outputs ctx) exts))))"
    using assms(5) by (simp add: java_jar_inputs_var_def gather_outputs_concat)
  have recorded: "\<forall>reg outs.
             ctx_project_outputs ctx = Some reg \<and>
             list_all2 (\<lambda>ext os. \<exists>po. reg (ext_project ext) = Some po \<and>
                                      po (ext_phase_name ext) = Some os) exts outs \<longrightarrow>
             java_jar_inputs_var x ctx output inputs =
               Inr (join '' '' (map (arg x) (concat outs)))"
  proof (intro allI impI)
    fix reg outs
    assume a: "ctx_project_outputs ctx = Some reg \<and>
             list_all2 (\<lambda>ext os. \<exists>po. reg (ext_project ext) = Some po \<and>
                                      po (ext_phase_name ext) = Some os) exts outs"
    have "map (classes_outputs ctx) exts = outs"
      by (rule map_classes_outputs_recorded [OF a [THEN conjunct1] a [THEN conjunct2]])
    then show "java_jar_inputs_var x ctx output inputs =
               Inr (join '' '' (map (arg x) (concat outs)))"
      unfolding general by simp
  qed
  have inside: "\<forall>out rel. out_file out = with_sep x (out_path out) @ rel \<longrightarrow>
             arg x out = ''-C '' @ pathify x (PStr (with_sep x (out_path out))) @ '' '' @
                         pathify x (PStr rel)"
    using arg_inside by blast
  have outside: "\<forall>out. \<not> prefix (with_sep x (out_path out)) (out_file out) \<longrightarrow>
             arg x out = pathify x (PStr (out_file out))"
    using arg_outside by blast
  have sep: "\<forall>d. with_sep x d = (if suffix (os_sep x) d then d else d @ os_sep x)"
    using with_sep_cases by blast
  show ?thesis
    by (intro conjI) (rule general recorded inside outside sep)+
qed

lemma demo_attach:
  "apply_extensions [JavaClasses 1 ''resources'', JavaClasses 1 ''compile''] demo_jar_phase =
     (None, demo_attached_phase)"
proof -
  have ne: "[JavaClasses 1 ''resources'', JavaClasses 1 ''compile''] \<noteq> []" by simp
  have st: "stash demo_jar_phase = []" "rebuild_on_from demo_jar_phase = []"
    "vars demo_jar_phase = Map.empty" "attrs demo_jar_phase = Map.empty"
    by (simp_all add: stash_def demo_jar_phase_def)
  show ?thesis
    unfolding apply_extensions_Jar [OF demo_jar_phase_cls ne] demo_attached_phase_def st
    by (simp add: JavaClasses_def)
qed

lemma demo_jar_store_phase: "ctx_current_phase demo_jar_store = Some demo_attached_phase"
  by (simp add: ctx_current_phase_def scopes_def demo_jar_store_def empty_scope_def)

lemma demo_jar_store_registry: "ctx_project_outputs demo_jar_store = Some demo_full_registry"
  by (simp add: ctx_project_outputs_def scopes_def demo_jar_store_def empty_scope_def)

lemma demo_recorded:
  "list_all2 (\<lambda>ext os. \<exists>po. demo_full_registry (ext_project ext) = Some po \<and>
                           po (ext_phase_name ext) = Some os)
     [JavaClasses 1 ''resources'', JavaClasses 1 ''compile'']
     [demo_resource_outputs, demo_outputs]"
  by (simp add: demo_full_registry_def JavaClasses_def)

lemma demo_arg_inside:
  "arg demo_externals \<lparr>out_path = ''build/classes'', out_file = ''build/classes/a.class''\<rparr>
     = ''-C build/classes/ a.class''"
  by (simp add: arg_def with_sep_def endswith_def startswith_def demo_externals_def Let_def)

lemma demo_arg_outside:
  "arg demo_externals \<lparr>out_path = ''build/classes/'', out_file = ''lib/b.class''\<rparr>
     = ''lib/b.class''"
  by (simp add: arg_def with_sep_def endswith_def startswith_def demo_externals_def Let_def)

lemma demo_arg_resource:
  "arg demo_externals \<lparr>out_path = ''res'', out_file = ''res/app.properties''\<rparr>
     = ''-C res/ app.properties''"
  by (simp add: arg_def with_sep_def endswith_def startswith_def demo_externals_def Let_def)

theorem java_jar_inputs_var_renders_witness:
  "cls (executor demo_jar_phase) = JarClass
   \<and> attrs demo_jar_phase ''_classes_extensions'' = None
   \<and> [JavaClasses 1 ''resources'', JavaClasses 1 ''compile''] \<noteq> []
   \<and> apply_extensions [JavaClasses 1 ''resources'', JavaClasses 1 ''compile''] demo_jar_phase
       = (None, demo_attached_phase)
   \<and> ctx_current_phase demo_jar_store = Some demo_attached_phase
   \<and> ctx_project_outputs demo_jar_store = Some demo_full_registry
   \<and> list_all2 (\<lambda>ext os. \<exists>po. demo_full_registry (ext_project ext) = Some po \<and>
                             po (ext_phase_name ext) = Some os)
        [JavaClasses 1 ''resources'', JavaClasses 1 ''compile'']
        [demo_resource_outputs, demo_outputs]
   \<and> java_jar_inputs_var demo_externals demo_jar_store PNone PNone =
       Inr ''-C res/ app.properties -C build/classes/ a.class lib/b.class''"
proof -
  have h2: "attrs demo_jar_phase ''_classes_extensions'' = None"
    by (simp add: demo_jar_phase_def)
  have h3: "[JavaClasses 1 ''resources'', JavaClasses 1 ''compile''] \<noteq> []" by simp
  note r = java_jar_inputs_var_renders
      [OF demo_jar_phase_cls h2 h3 demo_attach demo_jar_store_phase,
       of demo_externals PNone PNone, THEN conjunct2, THEN conjunct1]
  have "java_jar_inputs_var demo_externals demo_jar_store PNone PNone =
       Inr (join '' '' (map (arg demo_externals)
              (concat [demo_resource_outputs, demo_outputs])))"
    using r demo_jar_store_registry demo_recorded by blast
  then have res: "java_jar_inputs_var demo_externals demo_jar_store PNone PNone =
       Inr ''-C res/ app.properties -C build/classes/ a.class lib/b.class''"
    by (simp add: demo_outputs_def demo_resource_outputs_def demo_arg_inside demo_arg_outside
        demo_arg_resource)
  from demo_jar_phase_cls h2 h3 demo_attach demo_jar_store_phase demo_jar_store_registry
    demo_recorded res
  show ?thesis by blast
qed

section \<open>Finalizing a compile executor\<close>


































end
